theory Spec2Isabelle
  imports Complex_Main
begin

section \<open>The scalar type\<close>

text \<open>
  Every coordinate of \<^verbatim>\<open>base_representation.hpp\<close> is a C++ \<^verbatim>\<open>double\<close>. A finite
  double is read as the real number it denotes; the three non-finite values are kept,
  because the header divides by a magnitude that can be zero and C++ then yields an
  infinity or a NaN rather than stopping. Rounding, overflow to infinity and the sign
  of zero are not modelled: arithmetic on finite values is exact, and a zero divisor
  is read as \<^verbatim>\<open>+0.0\<close>, the only zero divisor the header produces
  (\<^verbatim>\<open>std::sqrt(0.0)\<close>).
\<close>

datatype double = Finite real | PosInf | NegInf | NaN

text \<open>Unary minus.\<close>

fun dneg :: "double \<Rightarrow> double" where
  "dneg (Finite x) = Finite (- x)"
| "dneg PosInf = NegInf"
| "dneg NegInf = PosInf"
| "dneg NaN = NaN"

text \<open>\<^verbatim>\<open>a + b\<close>: a NaN operand or the sum of opposite infinities is NaN.\<close>

fun dadd :: "double \<Rightarrow> double \<Rightarrow> double" where
  "dadd (Finite x) (Finite y) = Finite (x + y)"
| "dadd (Finite x) PosInf = PosInf"
| "dadd (Finite x) NegInf = NegInf"
| "dadd PosInf (Finite y) = PosInf"
| "dadd PosInf PosInf = PosInf"
| "dadd PosInf NegInf = NaN"
| "dadd NegInf (Finite y) = NegInf"
| "dadd NegInf PosInf = NaN"
| "dadd NegInf NegInf = NegInf"
| "dadd NaN b = NaN"
| "dadd a NaN = NaN"

text \<open>\<^verbatim>\<open>a - b\<close> is \<^verbatim>\<open>a + (-b)\<close>.\<close>

definition dsub :: "double \<Rightarrow> double \<Rightarrow> double" where
  "dsub a b = dadd a (dneg b)"

text \<open>\<^verbatim>\<open>a * b\<close>: zero times an infinity is NaN, otherwise the signs multiply.\<close>

fun dmul :: "double \<Rightarrow> double \<Rightarrow> double" where
  "dmul (Finite x) (Finite y) = Finite (x * y)"
| "dmul (Finite x) PosInf = (if x = 0 then NaN else if 0 < x then PosInf else NegInf)"
| "dmul (Finite x) NegInf = (if x = 0 then NaN else if 0 < x then NegInf else PosInf)"
| "dmul PosInf (Finite y) = (if y = 0 then NaN else if 0 < y then PosInf else NegInf)"
| "dmul NegInf (Finite y) = (if y = 0 then NaN else if 0 < y then NegInf else PosInf)"
| "dmul PosInf PosInf = PosInf"
| "dmul PosInf NegInf = NegInf"
| "dmul NegInf PosInf = NegInf"
| "dmul NegInf NegInf = PosInf"
| "dmul NaN b = NaN"
| "dmul a NaN = NaN"

text \<open>
  \<^verbatim>\<open>a / b\<close>: a finite non-zero value over zero is an infinity of its sign, zero over
  zero and infinity over infinity are NaN, a finite value over an infinity is zero.
\<close>

fun ddiv :: "double \<Rightarrow> double \<Rightarrow> double" where
  "ddiv (Finite x) (Finite y) =
     (if y = 0 then (if x = 0 then NaN else if 0 < x then PosInf else NegInf)
      else Finite (x / y))"
| "ddiv (Finite x) PosInf = Finite 0"
| "ddiv (Finite x) NegInf = Finite 0"
| "ddiv PosInf (Finite y) = (if y < 0 then NegInf else PosInf)"
| "ddiv NegInf (Finite y) = (if y < 0 then PosInf else NegInf)"
| "ddiv PosInf PosInf = NaN"
| "ddiv PosInf NegInf = NaN"
| "ddiv NegInf PosInf = NaN"
| "ddiv NegInf NegInf = NaN"
| "ddiv NaN b = NaN"
| "ddiv a NaN = NaN"

text \<open>\<^verbatim>\<open>std::sqrt\<close>: NaN below zero.\<close>

fun dsqrt :: "double \<Rightarrow> double" where
  "dsqrt (Finite x) = (if x < 0 then NaN else Finite (sqrt x))"
| "dsqrt PosInf = PosInf"
| "dsqrt NegInf = NaN"
| "dsqrt NaN = NaN"

section \<open>The canonical point\<close>

text \<open>
  The header's working value is a
  \<^verbatim>\<open>boost::geometry::model::point<double, 3, boost::geometry::cs::cartesian>\<close>:
  three doubles, read with \<^verbatim>\<open>get<0>\<close>, \<^verbatim>\<open>get<1>\<close>, \<^verbatim>\<open>get<2>\<close> and written with
  \<^verbatim>\<open>set<0>\<close>, \<^verbatim>\<open>set<1>\<close>, \<^verbatim>\<open>set<2>\<close>.
\<close>

datatype point3 = Point3 double double double

fun get0 :: "point3 \<Rightarrow> double" where
  "get0 (Point3 x y z) = x"

fun get1 :: "point3 \<Rightarrow> double" where
  "get1 (Point3 x y z) = y"

fun get2 :: "point3 \<Rightarrow> double" where
  "get2 (Point3 x y z) = z"

fun set0 :: "point3 \<Rightarrow> double \<Rightarrow> point3" where
  "set0 (Point3 x y z) v = Point3 v y z"

fun set1 :: "point3 \<Rightarrow> double \<Rightarrow> point3" where
  "set1 (Point3 x y z) v = Point3 x v z"

fun set2 :: "point3 \<Rightarrow> double \<Rightarrow> point3" where
  "set2 (Point3 x y z) v = Point3 x y v"

text \<open>
  A point declared without an initialiser (\<^verbatim>\<open>result\<close> in \<^verbatim>\<open>sum\<close> and \<^verbatim>\<open>mean\<close>).
  The header writes all three coordinates before it reads any, so the initial
  content never reaches a result (lemma \<open>set_all\<close> below).
\<close>

definition default_point :: point3 where
  "default_point = Point3 (Finite 0) (Finite 0) (Finite 0)"

text \<open>
  Modelled from the spec: \<^verbatim>\<open>boost::geometry::dot_product\<close> belongs to the geometry
  kernel, which is not under src/. The spec names it the 3-D dot product of the two
  canonical cartesian vectors; the kernel adds the products of the coordinates from
  the last dimension inwards.
\<close>

fun dot_product :: "point3 \<Rightarrow> point3 \<Rightarrow> double" where
  "dot_product (Point3 x1 y1 z1) (Point3 x2 y2 z2) =
     dadd (dmul x1 x2) (dadd (dmul y1 y2) (dmul z1 z2))"

text \<open>
  Modelled from the spec: \<^verbatim>\<open>boost::geometry::cross_product\<close> belongs to the geometry
  kernel, which is not under src/. The spec names it the 3-D cross product of the two
  canonical cartesian vectors.
\<close>

fun cross_product :: "point3 \<Rightarrow> point3 \<Rightarrow> point3" where
  "cross_product (Point3 x1 y1 z1) (Point3 x2 y2 z2) =
     Point3 (dsub (dmul y1 z2) (dmul z1 y2))
            (dsub (dmul z1 x2) (dmul x1 z2))
            (dsub (dmul x1 y2) (dmul y1 x2))"

section \<open>The representation\<close>

text \<open>
  \<^verbatim>\<open>base_representation<DimensionCount, Type>\<close> holds one member, the native point
  \<^verbatim>\<open>boost::geometry::model::point<double, DimensionCount, Type>\<close>. The dimension
  count and the coordinate system are template parameters; the model keeps them as
  the type \<open>'p\<close> of the native point, so a statement for every \<open>'p\<close> is a statement
  for every dimension count and system.
\<close>

record 'p base_representation =
  point :: 'p

definition get_point :: "'p base_representation \<Rightarrow> 'p" where
  "get_point this = point this"

text \<open>
  Each operation below takes what the C++ template resolves at instantiation as
  explicit arguments: \<open>ReturnType\<close> is the constructor of the requested result type
  (from a canonical point, or from a native point in \<open>to_representation\<close>), and
  \<open>transform1\<close>, \<open>transform2\<close> are the overloads of \<^verbatim>\<open>boost::geometry::transform\<close>
  selected for the native point type of \<^verbatim>\<open>this\<close> and of \<^verbatim>\<open>other\<close>. The static
  assertions on \<^verbatim>\<open>::value\<close> are the types: an operand is a \<open>base_representation\<close>,
  and so is every result.
\<close>

definition cross ::
  "(point3 \<Rightarrow> 'r base_representation) \<Rightarrow> ('p \<Rightarrow> point3) \<Rightarrow> ('q \<Rightarrow> point3) \<Rightarrow>
   'p base_representation \<Rightarrow> 'q base_representation \<Rightarrow> 'r base_representation" where
  "cross ReturnType transform1 transform2 this other =
     (let tempPoint1 = transform1 (point this);
          tempPoint2 = transform2 (get_point other)
      in ReturnType (cross_product tempPoint1 tempPoint2))"

definition dot ::
  "('p \<Rightarrow> point3) \<Rightarrow> ('q \<Rightarrow> point3) \<Rightarrow>
   'p base_representation \<Rightarrow> 'q base_representation \<Rightarrow> double" where
  "dot transform1 transform2 this other =
     (let tempPoint1 = transform1 (point this);
          tempPoint2 = transform2 (get_point other)
      in dot_product tempPoint1 tempPoint2)"

text \<open>
  \<^verbatim>\<open>magnitude\<close>: \<^verbatim>\<open>result\<close> starts at \<^verbatim>\<open>0.0\<close>, the point is transformed into
  \<^verbatim>\<open>tempPoint\<close>, and the square root of \<^verbatim>\<open>result\<close> is returned. Both loops that
  would add the squares are inside comments, so nothing is added to \<^verbatim>\<open>result\<close>.
\<close>

definition magnitude :: "('p \<Rightarrow> point3) \<Rightarrow> 'p base_representation \<Rightarrow> double" where
  "magnitude transform1 this =
     (let result = Finite 0;
          tempPoint = transform1 (point this)
      in dsqrt result)"

definition unit_vector ::
  "(point3 \<Rightarrow> 'r base_representation) \<Rightarrow> ('p \<Rightarrow> point3) \<Rightarrow>
   'p base_representation \<Rightarrow> 'r base_representation" where
  "unit_vector ReturnType transform1 this =
     (let mag = magnitude transform1 this;
          tempPoint = transform1 (point this);
          tempPoint = set0 tempPoint (ddiv (get0 tempPoint) mag);
          tempPoint = set1 tempPoint (ddiv (get1 tempPoint) mag);
          tempPoint = set2 tempPoint (ddiv (get2 tempPoint) mag)
      in ReturnType tempPoint)"

text \<open>
  \<^verbatim>\<open>to_representation\<close> is the one operation whose static assertion is written
  differently. \<^verbatim>\<open>is_base_template_of<Base, Derived>\<close> is an alias for the type
  \<^verbatim>\<open>base_template<Base, Derived>::type\<close>, that is \<^verbatim>\<open>std::true_type\<close> or
  \<^verbatim>\<open>std::false_type\<close>. The other operations hand the \<^verbatim>\<open>::value\<close> member of that
  type to \<^verbatim>\<open>BOOST_STATIC_ASSERT_MSG\<close>, a boolean constant; line 132 hands over the
  type itself. A type is not a constant expression, so the assertion cannot be
  evaluated and the operation cannot be instantiated: no call of it produces a value.
  The outcome of an instantiation is therefore a value of the model.
\<close>

datatype integral_constant = true_type | false_type

fun integral_value :: "integral_constant \<Rightarrow> bool" where
  "integral_value true_type = True"
| "integral_value false_type = False"

datatype assert_condition = Constant_expression bool | Type_id integral_constant

datatype build_error = Static_assertion_failed string | Condition_is_a_type

fun static_assert_msg :: "assert_condition \<Rightarrow> string \<Rightarrow> build_error + unit" where
  "static_assert_msg (Constant_expression b) msg =
     (if b then Inr () else Inl (Static_assertion_failed msg))"
| "static_assert_msg (Type_id t) msg = Inl Condition_is_a_type"

text \<open>
  The result type of the model is a \<open>base_representation\<close>, so for it the alias names
  \<^verbatim>\<open>std::true_type\<close>.
\<close>

definition to_representation ::
  "('p \<Rightarrow> 'r base_representation) \<Rightarrow> 'p base_representation \<Rightarrow>
   build_error + 'r base_representation" where
  "to_representation ReturnType this =
     (case static_assert_msg (Type_id true_type)
             ''return type is expected to be a representation class'' of
        Inl e \<Rightarrow> Inl e
      | Inr u \<Rightarrow> Inr (ReturnType (point this)))"

definition sum_rep ::
  "(point3 \<Rightarrow> 'r base_representation) \<Rightarrow> ('p \<Rightarrow> point3) \<Rightarrow> ('q \<Rightarrow> point3) \<Rightarrow>
   'p base_representation \<Rightarrow> 'q base_representation \<Rightarrow> 'r base_representation" where
  "sum_rep ReturnType transform1 transform2 this other =
     (let tempPoint1 = transform1 (point this);
          tempPoint2 = transform2 (get_point other);
          result = default_point;
          result = set0 result (dadd (get0 tempPoint1) (get0 tempPoint2));
          result = set1 result (dadd (get1 tempPoint1) (get1 tempPoint2));
          result = set2 result (dadd (get2 tempPoint1) (get2 tempPoint2))
      in ReturnType result)"

definition mean ::
  "(point3 \<Rightarrow> 'r base_representation) \<Rightarrow> ('p \<Rightarrow> point3) \<Rightarrow> ('q \<Rightarrow> point3) \<Rightarrow>
   'p base_representation \<Rightarrow> 'q base_representation \<Rightarrow> 'r base_representation" where
  "mean ReturnType transform1 transform2 this other =
     (let tempPoint1 = transform1 (point this);
          tempPoint2 = transform2 (get_point other);
          result = default_point;
          result = set0 result (ddiv (dadd (get0 tempPoint1) (get0 tempPoint2)) (Finite 2));
          result = set1 result (ddiv (dadd (get1 tempPoint1) (get1 tempPoint2)) (Finite 2));
          result = set2 result (ddiv (dadd (get2 tempPoint1) (get2 tempPoint2)) (Finite 2))
      in ReturnType result)"

section \<open>Collaborators outside the header\<close>

text \<open>
  Modelled from the spec: \<^verbatim>\<open>boost::geometry::transform\<close> between two points of the
  same coordinate system and dimension belongs to the geometry kernel, which is not
  under src/. The spec calls the conversion of a representation to its own type the
  identity conversion; the kernel copies the coordinates.
\<close>

definition transform_same_system :: "'p \<Rightarrow> 'p" where
  "transform_same_system pointObject = pointObject"

text \<open>
  Modelled from the spec: the constructor of a concrete representation from a point
  is not under src/. The spec requires a constructor that accepts a point and
  produces an instance in the type's own coordinate system, the target type performing
  the needed conversion: the new instance stores the converted point.
  \<open>transform1\<close> is the conversion from the system of the given point to the system of
  the constructed type.
\<close>

definition representation_from_point :: "('p \<Rightarrow> 'q) \<Rightarrow> 'p \<Rightarrow> 'q base_representation" where
  "representation_from_point transform1 pointObject = \<lparr>point = transform1 pointObject\<rparr>"

text \<open>
  Modelled from the spec: the cartesian representation is not under src/. Its native
  system is the canonical one (three cartesian coordinates), so constructing it from a
  canonical point converts within one system.
\<close>

definition cartesian_representation :: "point3 \<Rightarrow> point3 base_representation" where
  "cartesian_representation pointObject =
     representation_from_point transform_same_system pointObject"

text \<open>
  The norm as the spec words it, for comparison with \<open>magnitude\<close>: the square root of
  the sum of the squares of the three canonical cartesian components.
\<close>

definition spec_euclidean_norm :: "point3 \<Rightarrow> double" where
  "spec_euclidean_norm p =
     dsqrt (dadd (dadd (dmul (get0 p) (get0 p)) (dmul (get1 p) (get1 p)))
                 (dmul (get2 p) (get2 p)))"

section \<open>Arithmetic of the scalar type\<close>

lemma dmul_commute: "dmul a b = dmul b a"
  by (cases a; cases b) (simp_all add: mult.commute)

lemma dadd_commute: "dadd a b = dadd b a"
  by (cases a; cases b) (simp_all add: add.commute)

lemma dneg_dadd: "dneg (dadd a b) = dadd (dneg a) (dneg b)"
  by (cases a; cases b) simp_all

lemma dneg_dneg: "dneg (dneg a) = a"
  by (cases a) simp_all

lemma dsub_swap: "dsub a b = dneg (dsub b a)"
  by (simp add: dsub_def dneg_dadd dneg_dneg dadd_commute)

text \<open>Writing all three coordinates erases whatever the point held before.\<close>

lemma set_all: "set2 (set1 (set0 p a) b) c = Point3 a b c"
  by (cases p) simp

text \<open>Exchanging the operands of the kernel's cross product negates every coordinate.\<close>

lemma cross_product_swap:
  "cross_product p q =
     Point3 (dneg (get0 (cross_product q p))) (dneg (get1 (cross_product q p)))
            (dneg (get2 (cross_product q p)))"
proof (cases p)
  case p: (Point3 x1 y1 z1)
  show ?thesis
  proof (cases q)
    case q: (Point3 x2 y2 z2)
    have "dsub (dmul y1 z2) (dmul z1 y2) = dneg (dsub (dmul y2 z1) (dmul z2 y1))"
      using dsub_swap [of "dmul y1 z2" "dmul z1 y2"]
      by (simp add: dmul_commute [of y1] dmul_commute [of z1])
    moreover have "dsub (dmul z1 x2) (dmul x1 z2) = dneg (dsub (dmul z2 x1) (dmul x2 z1))"
      using dsub_swap [of "dmul z1 x2" "dmul x1 z2"]
      by (simp add: dmul_commute [of x1] dmul_commute [of z1])
    moreover have "dsub (dmul x1 y2) (dmul y1 x2) = dneg (dsub (dmul x2 y1) (dmul y2 x1))"
      using dsub_swap [of "dmul x1 y2" "dmul y1 x2"]
      by (simp add: dmul_commute [of x1] dmul_commute [of y1])
    ultimately show ?thesis
      by (simp add: p q)
  qed
qed

section \<open>Properties of magnitude\<close>

text \<open>
  C1. The claim: \<open>magnitude\<close> returns the Euclidean norm of the canonical cartesian
  point, so for a cartesian representation with canonical point (1,0,0) it returns
  1.0. Evaluated on the header: for that representation \<open>magnitude\<close> returns 0, while
  the norm of its canonical point, as the spec words it, is 1.
\<close>

theorem magnitude_unit_x_evaluates_to_zero:
  "magnitude transform_same_system
     (cartesian_representation (Point3 (Finite 1) (Finite 0) (Finite 0))) = Finite 0 \<and>
   spec_euclidean_norm (transform_same_system
     (get_point (cartesian_representation (Point3 (Finite 1) (Finite 0) (Finite 0))))) =
   Finite 1"
  by (simp add: magnitude_def spec_euclidean_norm_def transform_same_system_def
      cartesian_representation_def representation_from_point_def get_point_def)

text \<open>
  C2. For every representation, whatever its stored coordinates and whatever its
  native system, \<open>magnitude\<close> returns zero: the accumulation is absent, and the
  square root is taken of the initial \<open>0.0\<close>.
\<close>

theorem magnitude_always_zero: "magnitude transform1 a = Finite 0"
  by (simp add: magnitude_def)

section \<open>Properties of unit_vector\<close>

text \<open>
  C3. The claim: for a non-zero representation, \<open>unit_vector\<close> returns the canonical
  vector divided component-wise by the magnitude, and the result has magnitude 1.0.
  Evaluated on the header for the cartesian representation (3,4,0): the divisor is the
  magnitude the header computes, which is zero, so the result is (+inf, +inf, NaN),
  and the magnitude the header computes for that result is 0.
\<close>

theorem unit_vector_divides_by_zero:
  "unit_vector cartesian_representation transform_same_system
     (cartesian_representation (Point3 (Finite 3) (Finite 4) (Finite 0))) =
   cartesian_representation (Point3 PosInf PosInf NaN) \<and>
   magnitude transform_same_system
     (unit_vector cartesian_representation transform_same_system
        (cartesian_representation (Point3 (Finite 3) (Finite 4) (Finite 0)))) = Finite 0"
  by (simp add: unit_vector_def magnitude_def transform_same_system_def
      cartesian_representation_def representation_from_point_def)

section \<open>Properties of dot and cross\<close>

text \<open>
  C4. For all representations \<open>a\<close> and \<open>b\<close>, of any native point types (coordinate
  systems and dimension counts), \<open>a.dot(b)\<close> and \<open>b.dot(a)\<close> return the same value.
\<close>

theorem dot_commutative: "dot transform1 transform2 a b = dot transform2 transform1 b a"
  by (cases "transform1 (point a)"; cases "transform2 (point b)")
     (simp add: dot_def get_point_def dmul_commute)

text \<open>
  C5. For all representations \<open>a\<close> and \<open>b\<close> and every result type, \<open>b.cross(a)\<close> is
  constructed from the kernel's cross product \<open>v\<close> of the two canonical points, and
  \<open>a.cross(b)\<close> is constructed from \<open>v\<close> with every coordinate negated.
\<close>

theorem cross_anticommutative:
  "(let v = cross_product (transform2 (get_point b)) (transform1 (get_point a))
    in cross ReturnType transform2 transform1 b a = ReturnType v \<and>
       cross ReturnType transform1 transform2 a b =
         ReturnType (Point3 (dneg (get0 v)) (dneg (get1 v)) (dneg (get2 v))))"
  using cross_product_swap [of "transform1 (point a)" "transform2 (point b)"]
  by (simp add: cross_def get_point_def Let_def)

section \<open>Properties of sum and mean\<close>


text \<open>
  C7. For all representations \<open>a\<close> and \<open>b\<close> and every result type, with \<open>s\<close> the
  canonical point from which \<open>a.sum(b)\<close> is constructed, \<open>a.mean(b)\<close> is constructed
  from \<open>s\<close> with every coordinate divided by 2.
\<close>

theorem mean_halves_sum:
  "(let p = transform1 (get_point a); q = transform2 (get_point b);
        s = Point3 (dadd (get0 p) (get0 q)) (dadd (get1 p) (get1 q)) (dadd (get2 p) (get2 q))
    in sum_rep ReturnType transform1 transform2 a b = ReturnType s \<and>
       mean ReturnType transform1 transform2 a b =
         ReturnType (Point3 (ddiv (get0 s) (Finite 2)) (ddiv (get1 s) (Finite 2))
                            (ddiv (get2 s) (Finite 2))))"
  by (simp add: sum_rep_def mean_def get_point_def set_all Let_def)

text \<open>
  C10. For all representations \<open>a\<close> and \<open>b\<close> and every result type, \<open>a.sum(b)\<close> and
  \<open>b.sum(a)\<close> are the same value: the constructor of the result type receives one
  and the same canonical point \<open>s\<close> in both calls, whatever the native point types of
  the operands.
\<close>

theorem sum_commutative:
  "sum_rep ReturnType transform1 transform2 a b = sum_rep ReturnType transform2 transform1 b a \<and>
   (let p = transform1 (get_point a); q = transform2 (get_point b);
        s = Point3 (dadd (get0 p) (get0 q)) (dadd (get1 p) (get1 q)) (dadd (get2 p) (get2 q))
    in sum_rep ReturnType transform1 transform2 a b = ReturnType s \<and>
       sum_rep ReturnType transform2 transform1 b a = ReturnType s)"
proof -
  let ?p = "transform1 (point a)" and ?q = "transform2 (point b)"
  have "Point3 (dadd (get0 ?q) (get0 ?p)) (dadd (get1 ?q) (get1 ?p)) (dadd (get2 ?q) (get2 ?p)) =
        Point3 (dadd (get0 ?p) (get0 ?q)) (dadd (get1 ?p) (get1 ?q)) (dadd (get2 ?p) (get2 ?q))"
    using dadd_commute [of "get0 ?q" "get0 ?p"] dadd_commute [of "get1 ?q" "get1 ?p"]
      dadd_commute [of "get2 ?q" "get2 ?p"]
    by (simp only:)
  then show ?thesis
    by (simp only: sum_rep_def get_point_def Let_def set_all simp_thms)
qed

section \<open>Properties of to_representation\<close>

text \<open>
  C8. The claim: \<open>to_representation\<close> constructs the result directly from the native
  point of \<open>a\<close>, and with the type of \<open>a\<close> as result type the result equals \<open>a\<close>.
  Evaluated on the header for the cartesian representation (1,2,3) and the cartesian
  result type: the static assertion receives a type, so the instantiation stops there
  and no result is constructed; with the \<^verbatim>\<open>::value\<close> member, as the other operations
  write it, the same assertion passes.
\<close>

theorem to_representation_not_instantiable:
  "to_representation cartesian_representation
     (cartesian_representation (Point3 (Finite 1) (Finite 2) (Finite 3))) =
   Inl Condition_is_a_type \<and>
   static_assert_msg (Constant_expression (integral_value true_type))
     ''return type is expected to be a representation class'' = Inr ()"
  by (simp add: to_representation_def)

end
